theory Spec2Isabelle
  imports Main "HOL-Library.Word"
begin

section \<open>Data model\<close>

text \<open>
  The enumerations of the types module, with the members that the service and the form
  name, and its records, with the fields that they read and write. A string is a list of
  characters with codes below 256; an optional field is an \<open>option\<close>, and an optional
  flag that is absent is \<open>False\<close>.
\<close>

datatype GenerationMode = TEXT_TO_VIDEO | FRAMES_TO_VIDEO | REFERENCES_TO_VIDEO | EXTEND_VIDEO

datatype AspectRatio = LANDSCAPE | PORTRAIT

datatype Resolution = P720 | P1080 | P4K

datatype VeoModel = VEO_FAST | VEO

datatype VideoGenerationReferenceType = ASSET | STYLE

text \<open>
  A thrown value. \<open>Error m\<close> is \<open>new Error(m)\<close>; \<open>InvalidCharacterError\<close> is what the
  platform's \<open>atob\<close> throws, \<open>URIError\<close> what \<open>decodeURIComponent\<close> throws.
\<close>

datatype error = Error string | InvalidCharacterError | URIError

type_synonym bytes = "8 word list"

text \<open>A browser \<open>File\<close>: name, MIME type and content.\<close>

record File =
  file_name :: string
  file_type :: string
  file_bytes :: bytes

text \<open>\<open>ImageFile\<close> and \<open>VideoFile\<close>: a file with its base64 text.\<close>

record ImageFile =
  file_of :: File
  base64 :: string

record VideoFile =
  vfile_of :: File
  vbase64 :: string

text \<open>The SDK's \<open>Video\<close> handle; every field is optional.\<close>

record Video =
  uri :: "string option"
  videoBytes :: "string option"
  video_mimeType :: "string option"

record GenerateVideoParams =
  prompt :: string
  model :: VeoModel
  aspectRatio :: AspectRatio
  resolution :: Resolution
  mode :: GenerationMode
  startFrame :: "ImageFile option"
  middleFrame :: "ImageFile option"
  endFrame :: "ImageFile option"
  referenceImages :: "ImageFile list option"
  styleImage :: "ImageFile option"
  inputVideo :: "VideoFile option"
  inputVideoObject :: "Video option"
  isLooping :: bool

text \<open>
  The request object. It is built as an untyped object whose keys are added one by one;
  a key that was never added is \<open>None\<close> here.
\<close>

record Image =
  imageBytes :: string
  mimeType :: string

record VideoGenerationReferenceImage =
  ref_image :: Image
  referenceType :: VideoGenerationReferenceType

record config =
  numberOfVideos :: nat
  cfg_resolution :: Resolution
  cfg_aspectRatio :: "AspectRatio option"
  lastFrame :: "Image option"
  cfg_referenceImages :: "VideoGenerationReferenceImage list option"

record payload =
  pl_model :: VeoModel
  pl_config :: config
  pl_prompt :: "string option"
  pl_image :: "Image option"
  pl_video :: "Video option"

section \<open>generateVideo: the request payload\<close>

text \<open>The object literal \<open>{imageBytes: f.base64, mimeType: f.file.type}\<close>.\<close>

definition toImage :: "ImageFile \<Rightarrow> Image" where
  "toImage f = \<lparr>imageBytes = base64 f, mimeType = file_type (file_of f)\<rparr>"

definition toReference :: "VideoGenerationReferenceType \<Rightarrow> ImageFile \<Rightarrow> VideoGenerationReferenceImage" where
  "toReference t f = \<lparr>ref_image = toImage f, referenceType = t\<rparr>"

text \<open>
  Lines 63 to 160 of the service: the payload that is submitted, or the error thrown
  before anything is submitted. The assignments through \<open>generateVideoPayload.config\<close>
  write to the one config object.
\<close>

definition buildPayload :: "GenerateVideoParams \<Rightarrow> error + payload" where
  "buildPayload params =
    (let config0 = \<lparr>numberOfVideos = 1, cfg_resolution = resolution params,
                     cfg_aspectRatio = None, lastFrame = None, cfg_referenceImages = None\<rparr>;
         config1 = (if mode params \<noteq> EXTEND_VIDEO
                    then config0\<lparr>cfg_aspectRatio := Some (aspectRatio params)\<rparr> else config0);
         payload0 = \<lparr>pl_model = model params, pl_config = config1,
                      pl_prompt = None, pl_image = None, pl_video = None\<rparr>;
         payload1 = (if prompt params \<noteq> []
                     then payload0\<lparr>pl_prompt := Some (prompt params)\<rparr> else payload0)
     in if mode params = FRAMES_TO_VIDEO then
          (let payload2 = (case startFrame params of
                             Some sf \<Rightarrow> payload1\<lparr>pl_image := Some (toImage sf)\<rparr>
                           | None \<Rightarrow> payload1);
               finalEndFrame = (if isLooping params then startFrame params else endFrame params);
               payload3 = (case finalEndFrame of
                             Some ef \<Rightarrow> payload2\<lparr>pl_config :=
                                          (pl_config payload2)\<lparr>lastFrame := Some (toImage ef)\<rparr>\<rparr>
                           | None \<Rightarrow> payload2);
               payload4 = (case middleFrame params of
                             Some mf \<Rightarrow> payload3\<lparr>pl_config :=
                                          (pl_config payload3)\<lparr>cfg_referenceImages :=
                                             Some [toReference ASSET mf]\<rparr>\<rparr>
                           | None \<Rightarrow> payload3)
           in Inr payload4)
        else if mode params = REFERENCES_TO_VIDEO then
          (let refs0 = (case referenceImages params of
                          Some imgs \<Rightarrow> map (toReference ASSET) imgs
                        | None \<Rightarrow> []);
               referenceImagesPayload = (case styleImage params of
                          Some s \<Rightarrow> refs0 @ [toReference STYLE s]
                        | None \<Rightarrow> refs0)
           in Inr (if length referenceImagesPayload > 0
                   then payload1\<lparr>pl_config :=
                          (pl_config payload1)\<lparr>cfg_referenceImages := Some referenceImagesPayload\<rparr>\<rparr>
                   else payload1))
        else if mode params = EXTEND_VIDEO then
          (case inputVideoObject params of
             Some v \<Rightarrow> Inr (payload1\<lparr>pl_video := Some v\<rparr>)
           | None \<Rightarrow> Inl (Error ''An input video object is required to extend a video.''))
        else Inr payload1)"

section \<open>generateVideo: the long-running operation\<close>

text \<open>
  What the service reads of an operation status: \<open>done\<close> (optional), \<open>error\<close> (an
  object, of which only \<open>message\<close> is read) and \<open>response\<close>.
\<close>

record OperationError =
  message :: "string option"

record GeneratedVideo =
  video :: "Video option"

record GenerateVideosResponse =
  generatedVideos :: "GeneratedVideo list option"

record Operation =
  op_done :: "bool option"
  op_error :: "OperationError option"
  op_response :: "GenerateVideosResponse option"

record HttpResponse =
  ok :: bool
  status :: nat
  statusText :: string
  body :: bytes

text \<open>
  The world around the function: the answer of \<open>ai.models.generateVideos\<close> to a payload, the
  answer of the k-th call of \<open>ai.operations.getVideosOperation\<close> (the sequence of polled
  statuses), \<open>decodeURIComponent\<close> (\<open>None\<close> where it throws), \<open>fetch\<close>,
  \<open>URL.createObjectURL\<close> and the API key. A remote call that is rejected at transport
  level is outside this model.
\<close>

record env =
  generateVideos :: "payload \<Rightarrow> Operation"
  getVideosOperation :: "nat \<Rightarrow> Operation"
  decodeURIComponent :: "string \<Rightarrow> string option"
  fetch :: "string \<Rightarrow> HttpResponse"
  createObjectURL :: "bytes \<Rightarrow> string"
  API_KEY :: string

text \<open>The calls that leave the function, in the order they are made.\<close>

datatype event =
  GenerateVideos payload
| SetTimeout nat
| GetVideosOperation Operation
| Fetch string

record VideoResult =
  objectUrl :: string
  blob :: bytes
  res_uri :: string
  res_video :: Video

text \<open>\<open>!operation.done\<close> is false only for \<open>done = true\<close>; an absent flag keeps the loop going.\<close>

definition isDone :: "Operation \<Rightarrow> bool" where
  "isDone operation = (case op_done operation of Some b \<Rightarrow> b | None \<Rightarrow> False)"

text \<open>\<open>m || d\<close> on an optional string: an absent and an empty \<open>m\<close> are both falsy.\<close>

definition orElse :: "string option \<Rightarrow> string \<Rightarrow> string" where
  "orElse m d = (case m of Some s \<Rightarrow> (if s \<noteq> [] then s else d) | None \<Rightarrow> d)"

text \<open>
  The \<open>while (!operation.done)\<close> loop (lines 166 to 177). \<open>n\<close> counts the status
  refreshes made so far. The result is the calls made and either the error thrown inside
  the loop or the operation the loop ends with; \<open>None\<close> is a loop that never ends.
\<close>

partial_function (option) pollLoop ::
  "(nat \<Rightarrow> Operation) \<Rightarrow> nat \<Rightarrow> Operation \<Rightarrow> (event list \<times> (error + Operation)) option" where
  "pollLoop statuses n operation =
    (if \<not> isDone operation then
       (let operation' = statuses n in
        case op_error operation' of
          Some e \<Rightarrow>
            Some ([SetTimeout 10000, GetVideosOperation operation],
                  Inl (Error (orElse (message e)
                         ''Video generation operation failed during processing.'')))
        | None \<Rightarrow>
            Option.bind (pollLoop statuses (Suc n) operation')
              (\<lambda>(tr, r). Some (SetTimeout 10000 # GetVideosOperation operation # tr, r)))
     else Some ([], Inr operation))"

text \<open>Decimal text of a number, as a template literal prints \<open>res.status\<close>.\<close>

fun string_of_nat :: "nat \<Rightarrow> string" where
  "string_of_nat n =
    (if n < 10 then [''0123456789'' ! n]
     else string_of_nat (n div 10) @ [''0123456789'' ! (n mod 10)])"

declare string_of_nat.simps [simp del]

text \<open>
  Lines 179 to 214: the check after the loop, the first generated video, the download.
\<close>

definition fetchResult :: "env \<Rightarrow> Operation \<Rightarrow> event list \<times> (error + VideoResult)" where
  "fetchResult e operation =
    (case op_error operation of
       Some err \<Rightarrow> ([], Inl (Error (orElse (message err) ''Video generation operation failed.'')))
     | None \<Rightarrow>
    (case op_response operation of
       None \<Rightarrow> ([], Inl (Error
                 ''No videos generated. The operation completed but returned no results.''))
     | Some response \<Rightarrow>
    (case generatedVideos response of
       None \<Rightarrow> ([], Inl (Error ''No videos were generated.''))
     | Some [] \<Rightarrow> ([], Inl (Error ''No videos were generated.''))
     | Some (firstVideo # _) \<Rightarrow>
    (case video firstVideo of
       None \<Rightarrow> ([], Inl (Error ''Generated video is missing a URI.''))
     | Some videoObject \<Rightarrow>
    (case uri videoObject of
       None \<Rightarrow> ([], Inl (Error ''Generated video is missing a URI.''))
     | Some u \<Rightarrow>
         if u = [] then ([], Inl (Error ''Generated video is missing a URI.''))
         else
    (case decodeURIComponent e u of
       None \<Rightarrow> ([], Inl URIError)
     | Some url \<Rightarrow>
         (let target = url @ ''&key='' @ API_KEY e;
              res = fetch e target
          in if \<not> ok res
             then ([Fetch target],
                   Inl (Error (''Failed to fetch video: '' @ string_of_nat (status res)
                               @ '' '' @ statusText res)))
             else ([Fetch target],
                   Inr \<lparr>objectUrl = createObjectURL e (body res), blob = body res,
                        res_uri = url, res_video = videoObject\<rparr>))))))))"

text \<open>
  The whole function: payload, submission, polling, retrieval. The result is the calls made
  and the value returned or the error thrown; \<open>None\<close> when the polling never ends.
\<close>

definition generateVideo ::
  "env \<Rightarrow> GenerateVideoParams \<Rightarrow> (event list \<times> (error + VideoResult)) option" where
  "generateVideo e params =
    (case buildPayload params of
       Inl err \<Rightarrow> Some ([], Inl err)
     | Inr generateVideoPayload \<Rightarrow>
         (case pollLoop (getVideosOperation e) 0 (generateVideos e generateVideoPayload) of
            None \<Rightarrow> None
          | Some (tr, Inl err) \<Rightarrow> Some (GenerateVideos generateVideoPayload # tr, Inl err)
          | Some (tr, Inr operation) \<Rightarrow>
              (case fetchResult e operation of
                 (tr', r) \<Rightarrow> Some (GenerateVideos generateVideoPayload # tr @ tr', r))))"

section \<open>generateImage\<close>

text \<open>
  The platform's \<open>atob\<close>, after the forgiving-base64 decoding of the WHATWG Infra
  standard: ASCII whitespace is dropped, one or two padding signs are dropped from a text
  whose length is a multiple of four, a length of 1 modulo 4 or a character outside the
  alphabet fails (\<open>None\<close>: \<open>atob\<close> throws), and every four characters give three bytes.
  The result is the binary string, one character per byte.
\<close>

definition isAsciiWhitespace :: "char \<Rightarrow> bool" where
  "isAsciiWhitespace c = (of_char c \<in> set [9, 10, 12, 13, 32 :: nat])"

definition b64chars :: string where
  "b64chars = ''ABCDEFGHIJKLMNOPQRSTUVWXYZabcdefghijklmnopqrstuvwxyz0123456789+/''"

fun index_of :: "'a \<Rightarrow> 'a list \<Rightarrow> nat option" where
  "index_of c [] = None"
| "index_of c (x # xs) = (if c = x then Some 0 else map_option Suc (index_of c xs))"

definition stripPadding :: "string \<Rightarrow> string" where
  "stripPadding d =
    (if length d mod 4 = 0 then
       (let r = rev d in
        if take 2 r = ''=='' then rev (drop 2 r)
        else if take 1 r = ''='' then rev (drop 1 r)
        else d)
     else d)"

fun decodeSextets :: "nat list \<Rightarrow> nat list" where
  "decodeSextets (a # b # c # d # rest) =
    (let n = a * 262144 + b * 4096 + c * 64 + d
     in [n div 65536, n div 256 mod 256, n mod 256] @ decodeSextets rest)"
| "decodeSextets [a, b, c] = (let n = (a * 4096 + b * 64 + c) div 4 in [n div 256, n mod 256])"
| "decodeSextets [a, b] = [(a * 64 + b) div 16]"
| "decodeSextets _ = []"

definition atob :: "string \<Rightarrow> string option" where
  "atob input =
    (let d = stripPadding (filter (\<lambda>c. \<not> isAsciiWhitespace c) input)
     in if length d mod 4 = 1 then None
        else case those (map (\<lambda>c. index_of c b64chars) d) of
               None \<Rightarrow> None
             | Some sextets \<Rightarrow> Some (map char_of (decodeSextets sextets)))"

text \<open>What the function reads of the model's answer.\<close>

record InlineData =
  data :: "string option"
  inline_mimeType :: "string option"

record Part =
  inlineData :: "InlineData option"
  part_text :: "string option"

record Content =
  parts :: "Part list option"

record Candidate =
  content :: "Content option"

record GenerateContentResponse =
  candidates :: "Candidate list option"

record ImageRequest =
  req_model :: string
  req_text :: string
  req_aspectRatio :: string
  req_imageSize :: string

text \<open>\<open>response.candidates?.[0]?.content?.parts\<close>; an empty array of parts is truthy.\<close>

definition firstParts :: "GenerateContentResponse \<Rightarrow> Part list option" where
  "firstParts response =
    (case candidates response of
       None \<Rightarrow> None
     | Some [] \<Rightarrow> None
     | Some (c # _) \<Rightarrow> (case content c of None \<Rightarrow> None | Some ct \<Rightarrow> parts ct))"

text \<open>
  Lines 39 to 49, the body of the \<open>if (part.inlineData)\<close>. With \<open>data\<close> absent,
  \<open>atob(undefined)\<close> decodes the nine characters of \<open>undefined\<close> and throws
  (\<open>atob_undefined\<close> below). The bytes are the character codes, stored in a
  \<open>Uint8Array\<close>.
\<close>

definition decodeInline :: "InlineData \<Rightarrow> error + ImageFile" where
  "decodeInline d =
    (case data d of
       None \<Rightarrow> Inl InvalidCharacterError
     | Some b64 \<Rightarrow>
         (case atob b64 of
            None \<Rightarrow> Inl InvalidCharacterError
          | Some byteCharacters \<Rightarrow>
              Inr \<lparr>file_of = \<lparr>file_name = ''generated-image.png'', file_type = ''image/png'',
                               file_bytes = map (\<lambda>c. of_nat (of_char c)) byteCharacters\<rparr>,
                   base64 = b64\<rparr>))"

text \<open>The \<open>for (const part of ...)\<close> loop with its \<open>return\<close>, and the \<open>throw\<close> after it.\<close>

fun scanParts :: "Part list \<Rightarrow> error + ImageFile" where
  "scanParts [] = Inl (Error ''Response did not contain image data.'')"
| "scanParts (part # rest) =
    (case inlineData part of
       Some d \<Rightarrow> decodeInline d
     | None \<Rightarrow> scanParts rest)"

text \<open>Lines 20 to 31: the request; the aspect ratio defaults to 16:9.\<close>

definition imageRequest :: "string \<Rightarrow> string option \<Rightarrow> ImageRequest" where
  "imageRequest promptText aspectRatioArg =
    \<lparr>req_model = ''gemini-3-pro-image-preview'', req_text = promptText,
     req_aspectRatio = (case aspectRatioArg of Some a \<Rightarrow> a | None \<Rightarrow> ''16:9''),
     req_imageSize = ''1K''\<rparr>"

definition generateImage ::
  "(ImageRequest \<Rightarrow> GenerateContentResponse) \<Rightarrow> string \<Rightarrow> string option \<Rightarrow> error + ImageFile" where
  "generateImage generateContent promptText aspectRatioArg =
    (let response = generateContent (imageRequest promptText aspectRatioArg)
     in case firstParts response of
          None \<Rightarrow> Inl (Error ''No image generated.'')
        | Some ps \<Rightarrow> scanParts ps)"

section \<open>PromptForm: the submit gate\<close>

text \<open>The state variables of the form that make up a request.\<close>

record FormState =
  form_prompt :: string
  form_model :: VeoModel
  form_aspectRatio :: AspectRatio
  form_resolution :: Resolution
  form_generationMode :: GenerationMode
  form_startFrame :: "ImageFile option"
  form_middleFrame :: "ImageFile option"
  form_endFrame :: "ImageFile option"
  form_referenceImages :: "ImageFile list"
  form_styleImage :: "ImageFile option"
  form_inputVideo :: "VideoFile option"
  form_inputVideoObject :: "Video option"
  form_isLooping :: bool

text \<open>
  \<open>String.prototype.trim\<close> on a string of code units below 256: the white space and line
  terminators there are TAB, LF, VT, FF, CR, SPACE and NBSP.
\<close>

definition isWhiteSpace :: "char \<Rightarrow> bool" where
  "isWhiteSpace c = (of_char c \<in> set [9, 10, 11, 12, 13, 32, 160 :: nat])"

definition trim :: "string \<Rightarrow> string" where
  "trim s = rev (dropWhile isWhiteSpace (rev (dropWhile isWhiteSpace s)))"

text \<open>
  Lines 570 to 608: the \<open>switch\<close> that sets \<open>isSubmitDisabled\<close> and \<open>tooltipText\<close>.
\<close>

definition submitGate :: "FormState \<Rightarrow> bool \<times> string" where
  "submitGate st =
    (case form_generationMode st of
       TEXT_TO_VIDEO \<Rightarrow>
         (let isSubmitDisabled = (trim (form_prompt st) = [])
          in (isSubmitDisabled, if isSubmitDisabled then ''Please enter a prompt.'' else []))
     | FRAMES_TO_VIDEO \<Rightarrow>
         (let isSubmitDisabled = (form_startFrame st = None)
          in (isSubmitDisabled, if isSubmitDisabled then ''A start frame is required.'' else []))
     | REFERENCES_TO_VIDEO \<Rightarrow>
         (let hasNoPrompt = (trim (form_prompt st) = []);
              hasNoAssets = (length (form_referenceImages st) = 0)
          in (hasNoPrompt \<or> hasNoAssets,
              if hasNoPrompt \<and> hasNoAssets
              then ''Please enter a prompt and add at least one asset.''
              else if hasNoPrompt then ''Please enter a prompt.''
              else if hasNoAssets then ''At least one reference asset is required.''
              else []))
     | EXTEND_VIDEO \<Rightarrow>
         (let isSubmitDisabled = (form_inputVideoObject st = None)
          in (isSubmitDisabled,
              if isSubmitDisabled
              then ''An input video from a previous generation is required to extend.''
              else [])))"

definition isSubmitDisabled :: "FormState \<Rightarrow> bool" where
  "isSubmitDisabled st = fst (submitGate st)"

section \<open>Describing runs\<close>

text \<open>
  The calls of \<open>k\<close> rounds of the loop: each round waits 10000 ms and then refreshes the
  operation it holds.
\<close>

definition pollEvents :: "Operation list \<Rightarrow> event list" where
  "pollEvents ops =
    concat (map (\<lambda>operation. [SetTimeout 10000, GetVideosOperation operation]) ops)"

fun isFetch :: "event \<Rightarrow> bool" where
  "isFetch (Fetch _) = True"
| "isFetch _ = False"

fun isRefresh :: "event \<Rightarrow> bool" where
  "isRefresh (GetVideosOperation _) = True"
| "isRefresh _ = False"

text \<open>
  The validation rules in the words of the specification: text-to-video requires a
  non-blank prompt, frames-to-video a start frame, references-to-video a non-blank prompt
  and at least one reference asset, extend-video an input video object.
\<close>

definition nonBlank :: "string \<Rightarrow> bool" where
  "nonBlank s = (\<not> list_all isWhiteSpace s)"

definition validationRule :: "FormState \<Rightarrow> bool" where
  "validationRule st =
    (case form_generationMode st of
       TEXT_TO_VIDEO \<Rightarrow> nonBlank (form_prompt st)
     | FRAMES_TO_VIDEO \<Rightarrow> form_startFrame st \<noteq> None
     | REFERENCES_TO_VIDEO \<Rightarrow> nonBlank (form_prompt st) \<and> form_referenceImages st \<noteq> []
     | EXTEND_VIDEO \<Rightarrow> form_inputVideoObject st \<noteq> None)"

section \<open>Example inputs\<close>

definition example_frameA :: ImageFile where
  "example_frameA = \<lparr>file_of = \<lparr>file_name = ''a.png'', file_type = ''image/png'', file_bytes = [65]\<rparr>,
                     base64 = ''QQ==''\<rparr>"

definition example_frameB :: ImageFile where
  "example_frameB = \<lparr>file_of = \<lparr>file_name = ''b.jpg'', file_type = ''image/jpeg'', file_bytes = [66]\<rparr>,
                     base64 = ''Qg==''\<rparr>"

definition example_frameC :: ImageFile where
  "example_frameC = \<lparr>file_of = \<lparr>file_name = ''c.webp'', file_type = ''image/webp'', file_bytes = [67]\<rparr>,
                     base64 = ''Qw==''\<rparr>"

definition example_params :: "GenerationMode \<Rightarrow> GenerateVideoParams" where
  "example_params m =
    \<lparr>prompt = ''a cat'', model = VEO_FAST, aspectRatio = LANDSCAPE, resolution = P720, mode = m,
     startFrame = None, middleFrame = None, endFrame = None, referenceImages = None,
     styleImage = None, inputVideo = None, inputVideoObject = None, isLooping = False\<rparr>"

definition example_looping :: GenerateVideoParams where
  "example_looping = (example_params FRAMES_TO_VIDEO)
     \<lparr>startFrame := Some example_frameA, endFrame := Some example_frameB, isLooping := True\<rparr>"

definition example_frames :: GenerateVideoParams where
  "example_frames = (example_params FRAMES_TO_VIDEO)
     \<lparr>startFrame := Some example_frameA, middleFrame := Some example_frameC,
      endFrame := Some example_frameB\<rparr>"

definition example_references :: GenerateVideoParams where
  "example_references = (example_params REFERENCES_TO_VIDEO)
     \<lparr>referenceImages := Some [example_frameA, example_frameB], styleImage := Some example_frameC\<rparr>"

definition example_video :: Video where
  "example_video = \<lparr>uri = Some ''https://example.test/v.mp4?alt=media'', videoBytes = None,
                    video_mimeType = Some ''video/mp4''\<rparr>"

definition example_extend :: GenerateVideoParams where
  "example_extend = (example_params EXTEND_VIDEO)\<lparr>inputVideoObject := Some example_video\<rparr>"

text \<open>The payload of \<open>example_params TEXT_TO_VIDEO\<close>.\<close>

definition example_payload :: payload where
  "example_payload =
    \<lparr>pl_model = VEO_FAST,
     pl_config = \<lparr>numberOfVideos = 1, cfg_resolution = P720, cfg_aspectRatio = Some LANDSCAPE,
                  lastFrame = None, cfg_referenceImages = None\<rparr>,
     pl_prompt = Some ''a cat'', pl_image = None, pl_video = None\<rparr>"

definition example_pending :: Operation where
  "example_pending = \<lparr>op_done = None, op_error = None, op_response = None\<rparr>"

definition example_failed :: "string option \<Rightarrow> Operation" where
  "example_failed m = \<lparr>op_done = Some False, op_error = Some \<lparr>message = m\<rparr>, op_response = None\<rparr>"

definition example_finished :: "GeneratedVideo list \<Rightarrow> Operation" where
  "example_finished vids =
    \<lparr>op_done = Some True, op_error = None, op_response = Some \<lparr>generatedVideos = Some vids\<rparr>\<rparr>"

text \<open>Two pending statuses, then \<open>final\<close> for ever.\<close>

definition example_statuses :: "Operation \<Rightarrow> nat \<Rightarrow> Operation" where
  "example_statuses final n = (if n < 2 then example_pending else final)"

text \<open>
  A world where the submission answers \<open>first\<close>, the polls answer \<open>statuses\<close> and the
  download succeeds. The example URIs hold no percent sign, where \<open>decodeURIComponent\<close>
  changes nothing.
\<close>

definition example_env :: "Operation \<Rightarrow> (nat \<Rightarrow> Operation) \<Rightarrow> env" where
  "example_env first statuses =
    \<lparr>generateVideos = (\<lambda>_. first), getVideosOperation = statuses,
     decodeURIComponent = Some,
     fetch = (\<lambda>_. \<lparr>ok = True, status = 200, statusText = ''OK'', body = [1, 2, 3]\<rparr>),
     createObjectURL = (\<lambda>_. ''blob:example''), API_KEY = ''KEY''\<rparr>"

text \<open>The same world with a download that fails.\<close>

definition example_not_found :: "string \<Rightarrow> HttpResponse" where
  "example_not_found url = \<lparr>ok = False, status = 404, statusText = ''Not Found'', body = []\<rparr>"

text \<open>
  A video whose URI ends in a lone percent sign, and a decoder that, as
  \<open>decodeURIComponent\<close> does there, rejects it; a text without a percent sign is
  left as it is.
\<close>

definition example_video_bad_uri :: Video where
  "example_video_bad_uri =
    \<lparr>uri = Some ''https://example.test/v%'', videoBytes = None, video_mimeType = None\<rparr>"

definition example_strict_decode :: "string \<Rightarrow> string option" where
  "example_strict_decode u = (if CHR ''%'' \<in> set u then None else Some u)"

text \<open>The three rounds of polling that \<open>example_statuses\<close> takes.\<close>

definition example_rounds :: "event list" where
  "example_rounds =
    [SetTimeout 10000, GetVideosOperation example_pending,
     SetTimeout 10000, GetVideosOperation example_pending,
     SetTimeout 10000, GetVideosOperation example_pending]"

text \<open>A model that answers \<open>response\<close> to every image request.\<close>

definition example_generateContent ::
  "GenerateContentResponse \<Rightarrow> ImageRequest \<Rightarrow> GenerateContentResponse" where
  "example_generateContent response request = response"

definition example_image_response :: "Part list \<Rightarrow> GenerateContentResponse" where
  "example_image_response ps =
    \<lparr>candidates = Some [\<lparr>content = Some \<lparr>parts = Some ps\<rparr>\<rparr>]\<rparr>"

definition example_inline :: "string \<Rightarrow> Part" where
  "example_inline b64 =
    \<lparr>inlineData = Some \<lparr>data = Some b64, inline_mimeType = Some ''image/png''\<rparr>,
     part_text = None\<rparr>"

definition example_text_part :: Part where
  "example_text_part = \<lparr>inlineData = None, part_text = Some ''Here is your image.''\<rparr>"

definition example_form :: "GenerationMode \<Rightarrow> string \<Rightarrow> FormState" where
  "example_form m p =
    \<lparr>form_prompt = p, form_model = VEO_FAST, form_aspectRatio = LANDSCAPE,
     form_resolution = P720, form_generationMode = m, form_startFrame = None,
     form_middleFrame = None, form_endFrame = None, form_referenceImages = [],
     form_styleImage = None, form_inputVideo = None, form_inputVideoObject = None,
     form_isLooping = False\<rparr>"

section \<open>Lemmas\<close>

lemmas example_request_defs =
  example_frameA_def example_frameB_def example_frameC_def example_params_def
  example_looping_def example_frames_def example_references_def example_video_def
  example_extend_def

lemmas buildPayload_defs = buildPayload_def Let_def toImage_def toReference_def

lemma example_payload_built: "buildPayload (example_params TEXT_TO_VIDEO) = Inr example_payload"
  by (simp add: example_params_def example_payload_def buildPayload_defs)

lemma upt_2: "[0..<2] = [0, Suc 0]"
  by (simp add: upt_conv_Cons)

lemma example_statuses_lt: "n < 2 \<Longrightarrow> example_statuses final n = example_pending"
  by (simp add: example_statuses_def)

lemma example_statuses_2: "example_statuses final 2 = final"
  by (simp add: example_statuses_def)

lemma pollEvents_Nil: "pollEvents [] = []"
  by (simp add: pollEvents_def)

lemma pollEvents_Cons:
  "pollEvents (operation # ops) = SetTimeout 10000 # GetVideosOperation operation # pollEvents ops"
  by (simp add: pollEvents_def)

lemma pollEvents_no_fetch: "filter isFetch (pollEvents ops) = []"
  by (induction ops) (simp_all add: pollEvents_Nil pollEvents_Cons)

lemma pollEvents_refreshes: "length (filter isRefresh (pollEvents ops)) = length ops"
  by (induction ops) (simp_all add: pollEvents_Nil pollEvents_Cons)

text \<open>An operation that is done leaves the loop without a refresh.\<close>

lemma pollLoop_done:
  "isDone operation \<Longrightarrow> pollLoop statuses n operation = Some ([], Inr operation)"
  by (subst pollLoop.simps) simp

text \<open>
  The loop runs up to the first status that is done or carries an error, and ends there:
  by the \<open>throw\<close> when that status has an error, by the loop condition otherwise.
\<close>

lemma pollLoop_stop:
  "\<not> isDone operation \<Longrightarrow>
   (\<forall>j<k. \<not> isDone (statuses (n + j)) \<and> op_error (statuses (n + j)) = None) \<Longrightarrow>
   isDone (statuses (n + k)) \<or> op_error (statuses (n + k)) \<noteq> None \<Longrightarrow>
   pollLoop statuses n operation =
     Some (pollEvents (operation # map statuses [n..<n + k]),
           case op_error (statuses (n + k)) of
             Some e \<Rightarrow> Inl (Error (orElse (message e)
                         ''Video generation operation failed during processing.''))
           | None \<Rightarrow> Inr (statuses (n + k)))"
proof (induction k arbitrary: n operation)
  case 0
  show ?case
  proof (cases "op_error (statuses n)")
    case None
    with 0 have "isDone (statuses n)" by simp
    then have "pollLoop statuses (Suc n) (statuses n) = Some ([], Inr (statuses n))"
      by (rule pollLoop_done)
    with None 0 show ?thesis
      by (subst pollLoop.simps) (simp add: pollEvents_Cons pollEvents_Nil)
  next
    case (Some e)
    with 0 show ?thesis
      by (subst pollLoop.simps) (simp add: pollEvents_Cons pollEvents_Nil)
  qed
next
  case (Suc k)
  from Suc.prems(2) have first: "\<not> isDone (statuses n)" "op_error (statuses n) = None"
    by (auto dest: spec [of _ 0])
  have rest: "\<forall>j<k. \<not> isDone (statuses (Suc n + j)) \<and> op_error (statuses (Suc n + j)) = None"
  proof (intro allI impI)
    fix j assume "j < k"
    then have "Suc j < Suc k" by simp
    with Suc.prems(2)
    have "\<not> isDone (statuses (n + Suc j)) \<and> op_error (statuses (n + Suc j)) = None"
      by blast
    then show "\<not> isDone (statuses (Suc n + j)) \<and> op_error (statuses (Suc n + j)) = None"
      by simp
  qed
  from Suc.prems(3)
  have stop: "isDone (statuses (Suc n + k)) \<or> op_error (statuses (Suc n + k)) \<noteq> None"
    by simp
  note IH = Suc.IH [OF first(1) rest stop]
  have upt: "[n..<Suc (n + k)] = n # [Suc n..<Suc (n + k)]"
    by (simp add: upt_conv_Cons del: upt_Suc)
  show ?case
    using Suc.prems(1) first(2)
    by (subst pollLoop.simps)
       (simp add: IH upt pollEvents_Cons del: upt_Suc split: option.split)
qed

lemma pollLoop_first_stop:
  assumes "\<not> isDone operation"
    and "\<forall>j<k. \<not> isDone (statuses j) \<and> op_error (statuses j) = None"
    and "isDone (statuses k) \<or> op_error (statuses k) \<noteq> None"
  shows "pollLoop statuses 0 operation =
     Some (pollEvents (operation # map statuses [0..<k]),
           case op_error (statuses k) of
             Some e \<Rightarrow> Inl (Error (orElse (message e)
                         ''Video generation operation failed during processing.''))
           | None \<Rightarrow> Inr (statuses k))"
  using pollLoop_stop [of operation k statuses 0] assms by (simp cong: option.case_cong)

lemma example_poll:
  assumes "isDone final \<or> op_error final \<noteq> None"
  shows "pollLoop (example_statuses final) 0 example_pending =
     Some ([SetTimeout 10000, GetVideosOperation example_pending,
            SetTimeout 10000, GetVideosOperation example_pending,
            SetTimeout 10000, GetVideosOperation example_pending],
           case op_error final of
             Some e \<Rightarrow> Inl (Error (orElse (message e)
                         ''Video generation operation failed during processing.''))
           | None \<Rightarrow> Inr final)"
proof -
  have nd: "\<not> isDone example_pending"
    by (simp add: example_pending_def isDone_def)
  have before: "\<forall>j<2. \<not> isDone (example_statuses final j) \<and>
                       op_error (example_statuses final j) = None"
    by (simp add: example_statuses_lt example_pending_def isDone_def)
  have stop: "isDone (example_statuses final 2) \<or>
              op_error (example_statuses final 2) \<noteq> None"
    using assms by (simp add: example_statuses_2)
  from pollLoop_first_stop [OF nd before stop] show ?thesis
    by (simp add: upt_2 pollEvents_def example_statuses_lt example_statuses_2
             cong: option.case_cong)
qed

lemma example_completed:
  assumes "isDone final" and "op_error final = None"
    and "generateVideos e example_payload = example_pending"
    and "getVideosOperation e = example_statuses final"
  shows "pollLoop (getVideosOperation e) 0 (generateVideos e example_payload) =
           Some (example_rounds, Inr final)"
  using example_poll [of final] assms by (simp add: example_rounds_def)

text \<open>The only request for which no payload is built.\<close>

lemma buildPayload_throws_iff:
  "(\<exists>err. buildPayload params = Inl err) \<longleftrightarrow>
     mode params = EXTEND_VIDEO \<and> inputVideoObject params = None"
  by (auto simp add: buildPayload_defs split: option.splits)

section \<open>The frames-to-video payload\<close>

text \<open>
  Claim C1, as amended. For every frames-to-video request that is not looping and has an
  end frame, the payload has a \<open>config.lastFrame\<close> whose \<open>imageBytes\<close> are that end
  frame's base64 text and whose \<open>mimeType\<close> is its file type. For a looping request the
  last frame is the start frame instead, whatever the end frame is.
\<close>

theorem lastFrame_is_end_frame_unless_looping:
  assumes "mode params = FRAMES_TO_VIDEO"
  shows "\<exists>pl. buildPayload params = Inr pl \<and>
    (\<forall>ef. endFrame params = Some ef \<and> \<not> isLooping params \<longrightarrow>
       lastFrame (pl_config pl) =
         Some \<lparr>imageBytes = base64 ef, mimeType = file_type (file_of ef)\<rparr>) \<and>
    (\<forall>sf. startFrame params = Some sf \<and> isLooping params \<longrightarrow>
       lastFrame (pl_config pl) =
         Some \<lparr>imageBytes = base64 sf, mimeType = file_type (file_of sf)\<rparr>)"
  using assms by (simp add: buildPayload_defs split: option.split)

theorem lastFrame_is_end_frame_unless_looping_witness:
  "mode example_frames = FRAMES_TO_VIDEO \<and> endFrame example_frames = Some example_frameB \<and>
   \<not> isLooping example_frames \<and>
   map_sum id (lastFrame \<circ> pl_config) (buildPayload example_frames) =
     Inr (Some \<lparr>imageBytes = ''Qg=='', mimeType = ''image/jpeg''\<rparr>) \<and>
   mode example_looping = FRAMES_TO_VIDEO \<and> startFrame example_looping = Some example_frameA \<and>
   isLooping example_looping \<and>
   map_sum id (lastFrame \<circ> pl_config) (buildPayload example_looping) =
     Inr (Some \<lparr>imageBytes = ''QQ=='', mimeType = ''image/png''\<rparr>)"
  using lastFrame_is_end_frame_unless_looping [of example_frames]
        lastFrame_is_end_frame_unless_looping [of example_looping]
  by (auto simp add: example_request_defs)

text \<open>
  The claim as it was stated fails for a looping request with an end frame: the last frame
  is the start frame \<open>a.png\<close>, not the end frame \<open>b.jpg\<close>.
\<close>

theorem lastFrame_looping_counterexample:
  "mode example_looping = FRAMES_TO_VIDEO \<and> endFrame example_looping = Some example_frameB \<and>
   base64 example_frameB = ''Qg=='' \<and>
   map_sum id (lastFrame \<circ> pl_config) (buildPayload example_looping) =
     Inr (Some \<lparr>imageBytes = ''QQ=='', mimeType = ''image/png''\<rparr>)"
  by (simp add: example_request_defs buildPayload_defs)

text \<open>
  Claim C10. For every frames-to-video request with a middle frame, \<open>config.referenceImages\<close>
  is the one-element list of that frame's bytes and MIME type with reference type ASSET.
  The \<open>image\<close> field is made of the start frame and \<open>lastFrame\<close> of the start or end frame:
  the middle frame enters neither.
\<close>

theorem middle_frame_is_reference:
  assumes "mode params = FRAMES_TO_VIDEO" and "middleFrame params = Some mf"
  shows "\<exists>pl. buildPayload params = Inr pl \<and>
    cfg_referenceImages (pl_config pl) =
      Some [\<lparr>ref_image = \<lparr>imageBytes = base64 mf, mimeType = file_type (file_of mf)\<rparr>,
             referenceType = ASSET\<rparr>] \<and>
    pl_image pl = map_option toImage (startFrame params) \<and>
    lastFrame (pl_config pl) =
      map_option toImage (if isLooping params then startFrame params else endFrame params)"
  using assms by (simp add: buildPayload_defs split: option.split)

theorem middle_frame_is_reference_witness:
  "mode example_frames = FRAMES_TO_VIDEO \<and> middleFrame example_frames = Some example_frameC \<and>
   map_sum id (cfg_referenceImages \<circ> pl_config) (buildPayload example_frames) =
     Inr (Some [\<lparr>ref_image = \<lparr>imageBytes = ''Qw=='', mimeType = ''image/webp''\<rparr>,
                 referenceType = ASSET\<rparr>]) \<and>
   map_sum id pl_image (buildPayload example_frames) =
     Inr (Some \<lparr>imageBytes = ''QQ=='', mimeType = ''image/png''\<rparr>) \<and>
   map_sum id (lastFrame \<circ> pl_config) (buildPayload example_frames) =
     Inr (Some \<lparr>imageBytes = ''Qg=='', mimeType = ''image/jpeg''\<rparr>)"
  using middle_frame_is_reference [of example_frames example_frameC]
  by (auto simp add: example_request_defs toImage_def)

section \<open>The references-to-video payload\<close>

text \<open>
  Claim C5. For every references-to-video request, \<open>config.referenceImages\<close> is the list
  of the reference images in their order, each with reference type ASSET, followed by the
  style image with reference type STYLE when there is one; the field is set exactly when
  that list is not empty.
\<close>

theorem references_payload:
  assumes "mode params = REFERENCES_TO_VIDEO"
  shows "\<exists>pl. buildPayload params = Inr pl \<and>
    cfg_referenceImages (pl_config pl) =
      (let refs =
         map (\<lambda>img. \<lparr>ref_image = \<lparr>imageBytes = base64 img, mimeType = file_type (file_of img)\<rparr>,
                      referenceType = ASSET\<rparr>)
             (case referenceImages params of Some imgs \<Rightarrow> imgs | None \<Rightarrow> [])
         @ (case styleImage params of
              Some s \<Rightarrow> [\<lparr>ref_image = \<lparr>imageBytes = base64 s, mimeType = file_type (file_of s)\<rparr>,
                          referenceType = STYLE\<rparr>]
            | None \<Rightarrow> [])
       in if refs = [] then None else Some refs)"
  using assms by (simp add: buildPayload_defs split: option.split)

theorem references_payload_witness:
  "mode example_references = REFERENCES_TO_VIDEO \<and>
   map_sum id (cfg_referenceImages \<circ> pl_config) (buildPayload example_references) =
     Inr (Some [\<lparr>ref_image = \<lparr>imageBytes = ''QQ=='', mimeType = ''image/png''\<rparr>,
                 referenceType = ASSET\<rparr>,
                \<lparr>ref_image = \<lparr>imageBytes = ''Qg=='', mimeType = ''image/jpeg''\<rparr>,
                 referenceType = ASSET\<rparr>,
                \<lparr>ref_image = \<lparr>imageBytes = ''Qw=='', mimeType = ''image/webp''\<rparr>,
                 referenceType = STYLE\<rparr>])"
  using references_payload [of example_references]
  by (auto simp add: example_request_defs)

section \<open>The extend-video payload\<close>

text \<open>
  Claim C6. For every extend-video request: without an input video object, generateVideo
  throws \<open>An input video object is required to extend a video.\<close> (before any call is
  made); with one, the payload's \<open>video\<close> field is exactly that object.
\<close>

theorem extend_requires_input_video:
  assumes "mode params = EXTEND_VIDEO"
  shows "(inputVideoObject params = None \<longrightarrow>
            generateVideo e params =
              Some ([], Inl (Error ''An input video object is required to extend a video.''))) \<and>
         (\<forall>v. inputVideoObject params = Some v \<longrightarrow>
            (\<exists>pl. buildPayload params = Inr pl \<and> pl_video pl = Some v))"
  using assms by (simp add: generateVideo_def buildPayload_defs)

theorem extend_requires_input_video_witness:
  "mode example_extend = EXTEND_VIDEO \<and> inputVideoObject example_extend = Some example_video \<and>
   map_sum id pl_video (buildPayload example_extend) = Inr (Some example_video) \<and>
   mode (example_params EXTEND_VIDEO) = EXTEND_VIDEO \<and>
   inputVideoObject (example_params EXTEND_VIDEO) = None \<and>
   generateVideo (example_env example_pending (example_statuses example_pending))
       (example_params EXTEND_VIDEO) =
     Some ([], Inl (Error ''An input video object is required to extend a video.''))"
  using extend_requires_input_video [of example_extend
          "example_env example_pending (example_statuses example_pending)"]
        extend_requires_input_video [of "example_params EXTEND_VIDEO"
          "example_env example_pending (example_statuses example_pending)"]
  by (auto simp add: example_extend_def example_params_def)

section \<open>The aspect ratio\<close>

text \<open>
  Claim C9. For every video request whose mode is not extend-video, a payload is built and
  its config has an \<open>aspectRatio\<close> field, the request's aspect ratio. For every
  extend-video request with an input video, a payload is built and its config carries
  \<open>numberOfVideos\<close> and \<open>resolution\<close> and nothing else; without an input video the error
  is thrown and there is no payload. So the config of a payload has an \<open>aspectRatio\<close>
  field if and only if the mode is not extend-video.
\<close>

theorem aspectRatio_unless_extend:
  "(mode params \<noteq> EXTEND_VIDEO \<longrightarrow>
      (\<exists>pl. buildPayload params = Inr pl \<and>
            cfg_aspectRatio (pl_config pl) = Some (aspectRatio params))) \<and>
   (mode params = EXTEND_VIDEO \<longrightarrow>
      (\<forall>v. inputVideoObject params = Some v \<longrightarrow>
         (\<exists>pl. buildPayload params = Inr pl \<and>
               pl_config pl = \<lparr>numberOfVideos = 1, cfg_resolution = resolution params,
                               cfg_aspectRatio = None, lastFrame = None,
                               cfg_referenceImages = None\<rparr>)) \<and>
      (inputVideoObject params = None \<longrightarrow>
         buildPayload params =
           Inl (Error ''An input video object is required to extend a video.''))) \<and>
   (\<forall>pl. buildPayload params = Inr pl \<longrightarrow>
      (cfg_aspectRatio (pl_config pl) \<noteq> None \<longleftrightarrow> mode params \<noteq> EXTEND_VIDEO) \<and>
      (mode params \<noteq> EXTEND_VIDEO \<longrightarrow>
         cfg_aspectRatio (pl_config pl) = Some (aspectRatio params)) \<and>
      (mode params = EXTEND_VIDEO \<longrightarrow>
         pl_config pl = \<lparr>numberOfVideos = 1, cfg_resolution = resolution params,
                         cfg_aspectRatio = None, lastFrame = None,
                         cfg_referenceImages = None\<rparr>))"
proof (intro conjI impI allI)
  assume "mode params \<noteq> EXTEND_VIDEO"
  then show "\<exists>pl. buildPayload params = Inr pl \<and>
            cfg_aspectRatio (pl_config pl) = Some (aspectRatio params)"
    by (cases "mode params") (simp_all add: buildPayload_defs split: option.split)
next
  fix v
  assume "mode params = EXTEND_VIDEO" and "inputVideoObject params = Some v"
  then show "\<exists>pl. buildPayload params = Inr pl \<and>
               pl_config pl = \<lparr>numberOfVideos = 1, cfg_resolution = resolution params,
                               cfg_aspectRatio = None, lastFrame = None,
                               cfg_referenceImages = None\<rparr>"
    by (simp add: buildPayload_defs)
next
  assume "mode params = EXTEND_VIDEO" and "inputVideoObject params = None"
  then show "buildPayload params =
           Inl (Error ''An input video object is required to extend a video.'')"
    by (simp add: buildPayload_defs)
next
  fix pl
  assume built: "buildPayload params = Inr pl"
  then show "cfg_aspectRatio (pl_config pl) \<noteq> None \<longleftrightarrow> mode params \<noteq> EXTEND_VIDEO"
    by (auto simp add: buildPayload_defs split: option.splits if_splits)
  {
    assume "mode params \<noteq> EXTEND_VIDEO"
    with built show "cfg_aspectRatio (pl_config pl) = Some (aspectRatio params)"
      by (auto simp add: buildPayload_defs split: option.splits if_splits)
  }
  {
    assume "mode params = EXTEND_VIDEO"
    with built show "pl_config pl = \<lparr>numberOfVideos = 1, cfg_resolution = resolution params,
                         cfg_aspectRatio = None, lastFrame = None,
                         cfg_referenceImages = None\<rparr>"
      by (auto simp add: buildPayload_defs split: option.splits if_splits)
  }
qed

theorem aspectRatio_unless_extend_witness:
  "mode example_extend = EXTEND_VIDEO \<and> inputVideoObject example_extend = Some example_video \<and>
   map_sum id pl_config (buildPayload example_extend) =
     Inr \<lparr>numberOfVideos = 1, cfg_resolution = P720, cfg_aspectRatio = None,
          lastFrame = None, cfg_referenceImages = None\<rparr> \<and>
   mode (example_params EXTEND_VIDEO) = EXTEND_VIDEO \<and>
   inputVideoObject (example_params EXTEND_VIDEO) = None \<and>
   buildPayload (example_params EXTEND_VIDEO) =
     Inl (Error ''An input video object is required to extend a video.'') \<and>
   mode example_frames = FRAMES_TO_VIDEO \<and>
   map_sum id (cfg_aspectRatio \<circ> pl_config) (buildPayload example_frames) =
     Inr (Some LANDSCAPE) \<and>
   mode example_references = REFERENCES_TO_VIDEO \<and>
   map_sum id (cfg_aspectRatio \<circ> pl_config) (buildPayload example_references) =
     Inr (Some LANDSCAPE) \<and>
   mode (example_params TEXT_TO_VIDEO) = TEXT_TO_VIDEO \<and>
   map_sum id (cfg_aspectRatio \<circ> pl_config) (buildPayload (example_params TEXT_TO_VIDEO)) =
     Inr (Some LANDSCAPE)"
proof -
  have m: "mode example_extend = EXTEND_VIDEO" "inputVideoObject example_extend = Some example_video"
    "mode (example_params EXTEND_VIDEO) = EXTEND_VIDEO"
    "inputVideoObject (example_params EXTEND_VIDEO) = None"
    "mode example_frames = FRAMES_TO_VIDEO" "mode example_references = REFERENCES_TO_VIDEO"
    "mode (example_params TEXT_TO_VIDEO) = TEXT_TO_VIDEO"
    "aspectRatio example_frames = LANDSCAPE" "aspectRatio example_references = LANDSCAPE"
    "aspectRatio (example_params TEXT_TO_VIDEO) = LANDSCAPE"
    "resolution example_extend = P720"
    by (simp_all add: example_extend_def example_frames_def example_references_def
          example_params_def)
  from aspectRatio_unless_extend [of example_extend] m
  have a: "map_sum id pl_config (buildPayload example_extend) =
     Inr \<lparr>numberOfVideos = 1, cfg_resolution = P720, cfg_aspectRatio = None,
          lastFrame = None, cfg_referenceImages = None\<rparr>"
    by auto
  from aspectRatio_unless_extend [of "example_params EXTEND_VIDEO"] m
  have b: "buildPayload (example_params EXTEND_VIDEO) =
     Inl (Error ''An input video object is required to extend a video.'')"
    by simp
  from aspectRatio_unless_extend [of example_frames] m
  have c: "map_sum id (cfg_aspectRatio \<circ> pl_config) (buildPayload example_frames) =
     Inr (Some LANDSCAPE)"
    by auto
  from aspectRatio_unless_extend [of example_references] m
  have d: "map_sum id (cfg_aspectRatio \<circ> pl_config) (buildPayload example_references) =
     Inr (Some LANDSCAPE)"
    by auto
  from aspectRatio_unless_extend [of "example_params TEXT_TO_VIDEO"] m
  have e: "map_sum id (cfg_aspectRatio \<circ> pl_config) (buildPayload (example_params TEXT_TO_VIDEO)) =
     Inr (Some LANDSCAPE)"
    by auto
  from m a b c d e show ?thesis
    by simp
qed

section \<open>The polling loop\<close>

text \<open>
  Claim C2, as amended. When a payload was built and submitted, the operation is not done,
  and the status refresh number \<open>k\<close> is the first to report an error (no earlier status
  was done or had an error), generateVideo throws at once: with that error's message, or
  with \<open>Video generation operation failed during processing.\<close> when the message is absent
  or empty. The calls made are the submission and \<open>k + 1\<close> rounds of waiting 10000 ms and
  refreshing; nothing is fetched.
\<close>

theorem poll_error_throws:
  assumes "buildPayload params = Inr pl"
    and "\<not> isDone (generateVideos e pl)"
    and "\<forall>j<k. \<not> isDone (getVideosOperation e j) \<and> op_error (getVideosOperation e j) = None"
    and "op_error (getVideosOperation e k) = Some err"
  shows "\<exists>tr. generateVideo e params =
           Some (GenerateVideos pl # tr,
                 Inl (Error (case message err of
                               Some m \<Rightarrow> if m = []
                                 then ''Video generation operation failed during processing.''
                                 else m
                             | None \<Rightarrow> ''Video generation operation failed during processing.''))) \<and>
         tr = pollEvents (generateVideos e pl # map (getVideosOperation e) [0..<k]) \<and>
         length (filter isRefresh tr) = Suc k \<and> filter isFetch tr = []"
proof -
  from assms(4)
  have "isDone (getVideosOperation e k) \<or> op_error (getVideosOperation e k) \<noteq> None"
    by simp
  from pollLoop_first_stop [OF assms(2) assms(3) this] assms(1,4) show ?thesis
    by (simp add: generateVideo_def orElse_def pollEvents_refreshes pollEvents_no_fetch
             split: option.split)
qed

theorem poll_error_throws_witness:
  "generateVideo
     (example_env example_pending (example_statuses (example_failed (Some ''quota exceeded''))))
     (example_params TEXT_TO_VIDEO) =
   Some ([GenerateVideos example_payload,
          SetTimeout 10000, GetVideosOperation example_pending,
          SetTimeout 10000, GetVideosOperation example_pending,
          SetTimeout 10000, GetVideosOperation example_pending],
         Inl (Error ''quota exceeded''))"
proof -
  let ?sts = "example_statuses (example_failed (Some ''quota exceeded''))"
  let ?e = "example_env example_pending ?sts"
  have e1: "generateVideos ?e example_payload = example_pending"
    and e2: "getVideosOperation ?e = ?sts"
    by (simp_all add: example_env_def)
  have h2: "\<not> isDone (generateVideos ?e example_payload)"
    unfolding e1 by (simp add: example_pending_def isDone_def)
  have h3: "\<forall>j<2. \<not> isDone (getVideosOperation ?e j) \<and> op_error (getVideosOperation ?e j) = None"
    unfolding e2 by (simp add: example_statuses_lt example_pending_def isDone_def)
  have h4: "op_error (getVideosOperation ?e 2) = Some \<lparr>message = Some ''quota exceeded''\<rparr>"
    unfolding e2 by (simp add: example_statuses_2 example_failed_def)
  from poll_error_throws [OF example_payload_built h2 h3 h4] show ?thesis
    unfolding e1 e2 by (simp add: upt_2 pollEvents_def example_statuses_lt)
qed

text \<open>
  The claim as it was stated fails for an error whose message is present and empty: the
  fallback text is thrown, not the message.
\<close>

theorem empty_message_counterexample:
  "op_error (getVideosOperation
     (example_env example_pending (example_statuses (example_failed (Some [])))) 2)
     = Some \<lparr>message = Some []\<rparr> \<and>
   generateVideo (example_env example_pending (example_statuses (example_failed (Some []))))
        (example_params TEXT_TO_VIDEO) =
   Some ([GenerateVideos example_payload,
          SetTimeout 10000, GetVideosOperation example_pending,
          SetTimeout 10000, GetVideosOperation example_pending,
          SetTimeout 10000, GetVideosOperation example_pending],
         Inl (Error ''Video generation operation failed during processing.''))"
proof -
  have "op_error (example_failed (Some [])) \<noteq> None"
    by (simp add: example_failed_def)
  then have "pollLoop (example_statuses (example_failed (Some []))) 0 example_pending =
     Some ([SetTimeout 10000, GetVideosOperation example_pending,
            SetTimeout 10000, GetVideosOperation example_pending,
            SetTimeout 10000, GetVideosOperation example_pending],
           Inl (Error ''Video generation operation failed during processing.''))"
    by (simp add: example_poll example_failed_def orElse_def)
  then show ?thesis
    by (simp add: generateVideo_def example_payload_built example_env_def example_statuses_2
          example_failed_def)
qed

text \<open>
  Claim C3. For every sequence of polled statuses that holds a done status, the loop
  ends. An operation that is done leaves it at once. Otherwise it runs rounds of waiting
  10000 ms and refreshing, one for each operation it held that was not done, and ends at
  a status \<open>j\<close> no later than the done one: by leaving with that status, which is done,
  or by the throw for a status with an error.
\<close>

theorem pollLoop_terminates:
  assumes "isDone (statuses k)"
  shows "(isDone operation \<longrightarrow> pollLoop statuses 0 operation = Some ([], Inr operation)) \<and>
         (\<not> isDone operation \<longrightarrow>
           (\<exists>j\<le>k. (\<forall>i<j. \<not> isDone (statuses i)) \<and>
              (\<exists>r. pollLoop statuses 0 operation =
                      Some (pollEvents (operation # map statuses [0..<j]), r) \<and>
                   (case r of
                      Inr operation' \<Rightarrow> operation' = statuses j \<and> isDone operation'
                    | Inl err \<Rightarrow> op_error (statuses j) \<noteq> None))))"
proof (intro conjI impI)
  assume "isDone operation"
  then show "pollLoop statuses 0 operation = Some ([], Inr operation)"
    by (rule pollLoop_done)
next
  assume nd: "\<not> isDone operation"
  define P where "P j \<longleftrightarrow> isDone (statuses j) \<or> op_error (statuses j) \<noteq> None" for j
  define j where "j = (LEAST j. P j)"
  have Pk: "P k" using assms by (simp add: P_def)
  have Pj: "P j" unfolding j_def using Pk by (rule LeastI)
  have jk: "j \<le> k" unfolding j_def using Pk by (rule Least_le)
  have "\<not> P i" if "i < j" for i
    using that unfolding j_def by (rule not_less_Least)
  then have before: "\<forall>i<j. \<not> isDone (statuses i) \<and> op_error (statuses i) = None"
    by (simp add: P_def)
  have stop: "isDone (statuses j) \<or> op_error (statuses j) \<noteq> None"
    using Pj by (simp add: P_def)
  note run = pollLoop_first_stop [OF nd before stop]
  show "\<exists>j\<le>k. (\<forall>i<j. \<not> isDone (statuses i)) \<and>
          (\<exists>r. pollLoop statuses 0 operation =
                  Some (pollEvents (operation # map statuses [0..<j]), r) \<and>
               (case r of
                  Inr operation' \<Rightarrow> operation' = statuses j \<and> isDone operation'
                | Inl err \<Rightarrow> op_error (statuses j) \<noteq> None))"
  proof (intro exI [of _ j] conjI)
    show "j \<le> k" by (rule jk)
    show "\<forall>i<j. \<not> isDone (statuses i)" using before by simp
    show "\<exists>r. pollLoop statuses 0 operation =
                  Some (pollEvents (operation # map statuses [0..<j]), r) \<and>
               (case r of
                  Inr operation' \<Rightarrow> operation' = statuses j \<and> isDone operation'
                | Inl err \<Rightarrow> op_error (statuses j) \<noteq> None)"
    proof (cases "op_error (statuses j)")
      case None
      with stop have d: "isDone (statuses j)" by simp
      from run None have "pollLoop statuses 0 operation =
          Some (pollEvents (operation # map statuses [0..<j]), Inr (statuses j))"
        by simp
      with d show ?thesis by simp
    next
      case (Some err)
      with run have "pollLoop statuses 0 operation =
          Some (pollEvents (operation # map statuses [0..<j]),
                Inl (Error (orElse (message err)
                  ''Video generation operation failed during processing.'')))"
        by simp
      with Some show ?thesis by simp
    qed
  qed
qed

theorem pollLoop_terminates_witness:
  "isDone (example_statuses (example_finished []) 2) \<and> \<not> isDone example_pending \<and>
   pollLoop (example_statuses (example_finished [])) 0 example_pending =
     Some ([SetTimeout 10000, GetVideosOperation example_pending,
            SetTimeout 10000, GetVideosOperation example_pending,
            SetTimeout 10000, GetVideosOperation example_pending],
           Inr (example_finished [])) \<and>
   isDone (example_finished []) \<and>
   pollLoop (example_statuses (example_finished [])) 0 (example_finished []) =
     Some ([], Inr (example_finished []))"
proof -
  let ?sts = "example_statuses (example_finished [])"
  have h: "isDone (?sts 2)"
    by (simp add: example_statuses_2 example_finished_def isDone_def)
  have nd: "\<not> isDone example_pending"
    by (simp add: example_pending_def isDone_def)
  have noerr: "op_error (?sts j) = None" for j
    by (simp add: example_statuses_def example_finished_def example_pending_def)
  from pollLoop_terminates [of ?sts 2 example_pending, OF h] nd
  have "\<exists>j\<le>2. (\<forall>i<j. \<not> isDone (?sts i)) \<and>
          (\<exists>r. pollLoop ?sts 0 example_pending =
                  Some (pollEvents (example_pending # map ?sts [0..<j]), r) \<and>
               (case r of
                  Inr operation' \<Rightarrow> operation' = ?sts j \<and> isDone operation'
                | Inl err \<Rightarrow> op_error (?sts j) \<noteq> None))"
    by (rule conjunct2 [THEN mp])
  then obtain j r where j: "j \<le> 2"
    and run: "pollLoop ?sts 0 example_pending =
                Some (pollEvents (example_pending # map ?sts [0..<j]), r)"
    and r: "case r of
              Inr operation' \<Rightarrow> operation' = ?sts j \<and> isDone operation'
            | Inl err \<Rightarrow> op_error (?sts j) \<noteq> None"
    by (elim exE conjE)
  from r noerr obtain r': "r = Inr (?sts j)" and d: "isDone (?sts j)"
    by (cases r) simp_all
  have "j = 2"
  proof (rule ccontr)
    assume "j \<noteq> 2"
    with j have "j < 2" by simp
    then have "?sts j = example_pending" by (rule example_statuses_lt)
    with d nd show False by simp
  qed
  with run r' have polled:
    "pollLoop ?sts 0 example_pending =
       Some ([SetTimeout 10000, GetVideosOperation example_pending,
              SetTimeout 10000, GetVideosOperation example_pending,
              SetTimeout 10000, GetVideosOperation example_pending],
             Inr (example_finished []))"
    by (simp add: upt_2 pollEvents_def example_statuses_lt example_statuses_2)
  have d0: "isDone (example_finished [])"
    by (simp add: example_finished_def isDone_def)
  from pollLoop_terminates [of ?sts 2 "example_finished []", OF h] d0
  have "pollLoop ?sts 0 (example_finished []) = Some ([], Inr (example_finished []))"
    by (rule conjunct1 [THEN mp])
  with polled h nd d0 show ?thesis by simp
qed

section \<open>Retrieving the result\<close>

text \<open>
  Whatever the loop returns: its calls hold no fetch, and the operation it leaves with
  is done.
\<close>

lemma pollLoop_result:
  assumes "pollLoop statuses n operation = Some res"
  shows "filter isFetch (fst res) = [] \<and>
         (case snd res of Inr operation' \<Rightarrow> isDone operation' | Inl err \<Rightarrow> True)"
proof (rule pollLoop.raw_induct
    [where P = "\<lambda>statuses n operation res. filter isFetch (fst res) = [] \<and>
         (case snd res of Inr operation' \<Rightarrow> isDone operation' | Inl err \<Rightarrow> True)",
     OF _ assms])
  fix f :: "(nat \<Rightarrow> Operation) \<Rightarrow> nat \<Rightarrow> Operation \<Rightarrow> (event list \<times> (error + Operation)) option"
  fix statuses n operation res
  assume IH: "\<And>statuses n operation res. f statuses n operation = Some res \<Longrightarrow>
     filter isFetch (fst res) = [] \<and>
         (case snd res of Inr operation' \<Rightarrow> isDone operation' | Inl err \<Rightarrow> True)"
  assume eq: "(if \<not> isDone operation then
       (let operation' = statuses n in
        case op_error operation' of
          Some e \<Rightarrow>
            Some ([SetTimeout 10000, GetVideosOperation operation],
                  Inl (Error (orElse (message e)
                         ''Video generation operation failed during processing.'')))
        | None \<Rightarrow>
            Option.bind (f statuses (Suc n) operation')
              (\<lambda>(tr, r). Some (SetTimeout 10000 # GetVideosOperation operation # tr, r)))
     else Some ([], Inr operation)) = Some res"
  show "filter isFetch (fst res) = [] \<and>
         (case snd res of Inr operation' \<Rightarrow> isDone operation' | Inl err \<Rightarrow> True)"
  proof (cases "isDone operation")
    case True
    with eq show ?thesis by auto
  next
    case False
    show ?thesis
    proof (cases "op_error (statuses n)")
      case None
      with False eq obtain res' where rec: "f statuses (Suc n) (statuses n) = Some res'"
        and res: "res = (SetTimeout 10000 # GetVideosOperation operation # fst res', snd res')"
        by (auto simp add: Let_def split: Option.bind_splits prod.splits)
      from IH [OF rec] res show ?thesis by simp
    next
      case (Some e)
      with False eq show ?thesis by (auto simp add: Let_def)
    qed
  qed
qed

lemma generateVideo_completed:
  assumes "buildPayload params = Inr pl"
    and "pollLoop (getVideosOperation e) 0 (generateVideos e pl) = Some (tr, Inr operation)"
  shows "generateVideo e params =
           Some (GenerateVideos pl # tr @ fst (fetchResult e operation),
                 snd (fetchResult e operation))"
  using assms by (simp add: generateVideo_def split: prod.split)

text \<open>
  After an operation without a server error: something is fetched exactly when the first
  generated video has a non-empty URI that \<open>decodeURIComponent\<close> accepts, and a value
  is returned exactly when, besides, the HTTP answer is ok.
\<close>

lemma fetchResult_fetches:
  assumes "op_error operation = None"
  shows "(filter isFetch (fst (fetchResult e operation)) \<noteq> []) =
     (\<exists>response v vs vo u url. op_response operation = Some response \<and>
        generatedVideos response = Some (v # vs) \<and> video v = Some vo \<and>
        uri vo = Some u \<and> u \<noteq> [] \<and> decodeURIComponent e u = Some url)"
  using assms
  by (auto simp add: fetchResult_def Let_def split: option.splits list.splits)

lemma fetchResult_returns:
  assumes "op_error operation = None"
  shows "(\<exists>res. snd (fetchResult e operation) = Inr res) =
     (\<exists>response v vs vo u url. op_response operation = Some response \<and>
        generatedVideos response = Some (v # vs) \<and> video v = Some vo \<and>
        uri vo = Some u \<and> u \<noteq> [] \<and> decodeURIComponent e u = Some url \<and>
        ok (fetch e (url @ ''&key='' @ API_KEY e)))"
  using assms
  by (auto simp add: fetchResult_def Let_def split: option.splits list.splits)

text \<open>
  Claim C7, as amended. When a payload was submitted and the loop ends with an operation
  without a server error, that operation is done, the polling fetched nothing, and
  generateVideo looks at the first generated video only. It throws
  \<open>No videos generated. The operation completed but returned no results.\<close> when the
  response is absent, \<open>No videos were generated.\<close> when the video list is absent or empty,
  \<open>Generated video is missing a URI.\<close> when the first video has no video object, no URI
  or an empty URI, and the \<open>URIError\<close> of \<open>decodeURIComponent\<close> when that rejects the
  URI; in these cases nothing is fetched. When the first video has a non-empty URI that
  \<open>decodeURIComponent\<close> accepts, the decoded URL with the key is fetched once, and the
  asset is returned when the HTTP answer is ok, while
  \<open>Failed to fetch video: status statusText\<close> is thrown when it is not. So generateVideo
  fetches exactly when the first video has a non-empty URI that is accepted, and returns
  the asset exactly when, besides, the HTTP answer is ok.
\<close>

theorem completed_operation_result:
  assumes "buildPayload params = Inr pl"
    and "pollLoop (getVideosOperation e) 0 (generateVideos e pl) = Some (tr, Inr operation)"
    and "op_error operation = None"
  shows "isDone operation \<and> filter isFetch tr = [] \<and>
    (op_response operation = None \<longrightarrow>
       generateVideo e params =
         Some (GenerateVideos pl # tr,
               Inl (Error ''No videos generated. The operation completed but returned no results.''))) \<and>
    (\<forall>response. op_response operation = Some response \<and>
         (generatedVideos response = None \<or> generatedVideos response = Some []) \<longrightarrow>
       generateVideo e params =
         Some (GenerateVideos pl # tr, Inl (Error ''No videos were generated.''))) \<and>
    (\<forall>response v vs. op_response operation = Some response \<and>
         generatedVideos response = Some (v # vs) \<and>
         (video v = None \<or> (\<exists>vo. video v = Some vo \<and> (uri vo = None \<or> uri vo = Some []))) \<longrightarrow>
       generateVideo e params =
         Some (GenerateVideos pl # tr, Inl (Error ''Generated video is missing a URI.''))) \<and>
    (\<forall>response v vs vo u url. op_response operation = Some response \<and>
         generatedVideos response = Some (v # vs) \<and> video v = Some vo \<and>
         uri vo = Some u \<and> u \<noteq> [] \<and> decodeURIComponent e u = Some url \<longrightarrow>
       generateVideo e params =
         Some (GenerateVideos pl # tr @ [Fetch (url @ ''&key='' @ API_KEY e)],
               if ok (fetch e (url @ ''&key='' @ API_KEY e))
               then Inr \<lparr>objectUrl = createObjectURL e (body (fetch e (url @ ''&key='' @ API_KEY e))),
                         blob = body (fetch e (url @ ''&key='' @ API_KEY e)),
                         res_uri = url, res_video = vo\<rparr>
               else Inl (Error (''Failed to fetch video: ''
                        @ string_of_nat (status (fetch e (url @ ''&key='' @ API_KEY e)))
                        @ '' '' @ statusText (fetch e (url @ ''&key='' @ API_KEY e)))))) \<and>
    (\<forall>response v vs vo u. op_response operation = Some response \<and>
         generatedVideos response = Some (v # vs) \<and> video v = Some vo \<and>
         uri vo = Some u \<and> u \<noteq> [] \<and> decodeURIComponent e u = None \<longrightarrow>
       generateVideo e params = Some (GenerateVideos pl # tr, Inl URIError)) \<and>
    (\<exists>trace r. generateVideo e params = Some (trace, r) \<and>
       (filter isFetch trace \<noteq> [] \<longleftrightarrow>
          (\<exists>response v vs vo u url. op_response operation = Some response \<and>
             generatedVideos response = Some (v # vs) \<and> video v = Some vo \<and>
             uri vo = Some u \<and> u \<noteq> [] \<and> decodeURIComponent e u = Some url)) \<and>
       ((\<exists>res. r = Inr res) \<longleftrightarrow>
          (\<exists>response v vs vo u url. op_response operation = Some response \<and>
             generatedVideos response = Some (v # vs) \<and> video v = Some vo \<and>
             uri vo = Some u \<and> u \<noteq> [] \<and> decodeURIComponent e u = Some url \<and>
             ok (fetch e (url @ ''&key='' @ API_KEY e)))))"
proof (intro conjI allI impI)
  from pollLoop_result [OF assms(2)] show "isDone operation" and nofetch: "filter isFetch tr = []"
    by simp_all
  note run = generateVideo_completed [OF assms(1,2)]
  have "filter isFetch (GenerateVideos pl # tr @ fst (fetchResult e operation)) =
          filter isFetch (fst (fetchResult e operation))"
    by (simp add: nofetch)
  with run fetchResult_fetches [OF assms(3), of e] fetchResult_returns [OF assms(3), of e]
  show "\<exists>trace r. generateVideo e params = Some (trace, r) \<and>
       (filter isFetch trace \<noteq> [] \<longleftrightarrow>
          (\<exists>response v vs vo u url. op_response operation = Some response \<and>
             generatedVideos response = Some (v # vs) \<and> video v = Some vo \<and>
             uri vo = Some u \<and> u \<noteq> [] \<and> decodeURIComponent e u = Some url)) \<and>
       ((\<exists>res. r = Inr res) \<longleftrightarrow>
          (\<exists>response v vs vo u url. op_response operation = Some response \<and>
             generatedVideos response = Some (v # vs) \<and> video v = Some vo \<and>
             uri vo = Some u \<and> u \<noteq> [] \<and> decodeURIComponent e u = Some url \<and>
             ok (fetch e (url @ ''&key='' @ API_KEY e))))"
    by (intro exI [of _ "GenerateVideos pl # tr @ fst (fetchResult e operation)"]
              exI [of _ "snd (fetchResult e operation)"]) simp
next
  assume "op_response operation = None"
  with assms(3) show "generateVideo e params =
         Some (GenerateVideos pl # tr,
               Inl (Error ''No videos generated. The operation completed but returned no results.''))"
    by (simp add: generateVideo_completed [OF assms(1,2)] fetchResult_def)
next
  fix response
  assume "op_response operation = Some response \<and>
         (generatedVideos response = None \<or> generatedVideos response = Some [])"
  with assms(3) show "generateVideo e params =
         Some (GenerateVideos pl # tr, Inl (Error ''No videos were generated.''))"
    by (auto simp add: generateVideo_completed [OF assms(1,2)] fetchResult_def)
next
  fix response v vs
  assume "op_response operation = Some response \<and>
         generatedVideos response = Some (v # vs) \<and>
         (video v = None \<or> (\<exists>vo. video v = Some vo \<and> (uri vo = None \<or> uri vo = Some [])))"
  with assms(3) show "generateVideo e params =
         Some (GenerateVideos pl # tr, Inl (Error ''Generated video is missing a URI.''))"
    by (auto simp add: generateVideo_completed [OF assms(1,2)] fetchResult_def)
next
  fix response v vs vo u url
  assume "op_response operation = Some response \<and>
         generatedVideos response = Some (v # vs) \<and> video v = Some vo \<and>
         uri vo = Some u \<and> u \<noteq> [] \<and> decodeURIComponent e u = Some url"
  with assms(3) show "generateVideo e params =
         Some (GenerateVideos pl # tr @ [Fetch (url @ ''&key='' @ API_KEY e)],
               if ok (fetch e (url @ ''&key='' @ API_KEY e))
               then Inr \<lparr>objectUrl = createObjectURL e (body (fetch e (url @ ''&key='' @ API_KEY e))),
                         blob = body (fetch e (url @ ''&key='' @ API_KEY e)),
                         res_uri = url, res_video = vo\<rparr>
               else Inl (Error (''Failed to fetch video: ''
                        @ string_of_nat (status (fetch e (url @ ''&key='' @ API_KEY e)))
                        @ '' '' @ statusText (fetch e (url @ ''&key='' @ API_KEY e)))))"
    by (simp add: generateVideo_completed [OF assms(1,2)] fetchResult_def Let_def)
next
  fix response v vs vo u
  assume "op_response operation = Some response \<and>
         generatedVideos response = Some (v # vs) \<and> video v = Some vo \<and>
         uri vo = Some u \<and> u \<noteq> [] \<and> decodeURIComponent e u = None"
  with assms(3) show "generateVideo e params = Some (GenerateVideos pl # tr, Inl URIError)"
    by (simp add: generateVideo_completed [OF assms(1,2)] fetchResult_def)
qed

theorem completed_operation_result_witness:
  "generateVideo
     (example_env example_pending
        (example_statuses (example_finished [\<lparr>video = Some example_video\<rparr>])))
     (example_params TEXT_TO_VIDEO) =
   Some (GenerateVideos example_payload # example_rounds @
           [Fetch ''https://example.test/v.mp4?alt=media&key=KEY''],
         Inr \<lparr>objectUrl = ''blob:example'', blob = [1, 2, 3],
              res_uri = ''https://example.test/v.mp4?alt=media'', res_video = example_video\<rparr>) \<and>
   generateVideo
     ((example_env example_pending
        (example_statuses (example_finished [\<lparr>video = Some example_video\<rparr>])))
        \<lparr>fetch := example_not_found\<rparr>)
     (example_params TEXT_TO_VIDEO) =
   Some (GenerateVideos example_payload # example_rounds @
           [Fetch ''https://example.test/v.mp4?alt=media&key=KEY''],
         Inl (Error ''Failed to fetch video: 404 Not Found'')) \<and>
   generateVideo
     (example_env example_pending (example_statuses (example_finished [\<lparr>video = None\<rparr>])))
     (example_params TEXT_TO_VIDEO) =
   Some (GenerateVideos example_payload # example_rounds,
         Inl (Error ''Generated video is missing a URI.'')) \<and>
   generateVideo
     (example_env example_pending (example_statuses (example_finished [])))
     (example_params TEXT_TO_VIDEO) =
   Some (GenerateVideos example_payload # example_rounds,
         Inl (Error ''No videos were generated.'')) \<and>
   generateVideo
     (example_env example_pending
        (example_statuses \<lparr>op_done = Some True, op_error = None, op_response = None\<rparr>))
     (example_params TEXT_TO_VIDEO) =
   Some (GenerateVideos example_payload # example_rounds,
         Inl (Error ''No videos generated. The operation completed but returned no results.'')) \<and>
   generateVideo
     ((example_env example_pending
        (example_statuses (example_finished [\<lparr>video = Some example_video_bad_uri\<rparr>])))
        \<lparr>decodeURIComponent := example_strict_decode\<rparr>)
     (example_params TEXT_TO_VIDEO) =
   Some (GenerateVideos example_payload # example_rounds, Inl URIError)"
proof -
  have fin: "isDone (example_finished vids)" "op_error (example_finished vids) = None" for vids
    by (simp_all add: example_finished_def isDone_def)
  have env: "generateVideos (example_env example_pending (example_statuses final)) example_payload
               = example_pending"
    "getVideosOperation (example_env example_pending (example_statuses final))
               = example_statuses final" for final
    by (simp_all add: example_env_def)
  have env': "generateVideos
                ((example_env example_pending (example_statuses final))\<lparr>fetch := example_not_found\<rparr>)
                example_payload = example_pending"
    "getVideosOperation
       ((example_env example_pending (example_statuses final))\<lparr>fetch := example_not_found\<rparr>)
       = example_statuses final" for final
    by (simp_all add: example_env_def)
  let ?u = "''https://example.test/v.mp4?alt=media''"
  let ?one = "example_finished [\<lparr>video = Some example_video\<rparr>]"
  let ?e1 = "example_env example_pending (example_statuses ?one)"
  note r1 = completed_operation_result
    [OF example_payload_built example_completed [OF fin env] fin(2),
     THEN conjunct2, THEN conjunct2, THEN conjunct2, THEN conjunct2, THEN conjunct2,
     THEN conjunct1, rule_format,
     of "[\<lparr>video = Some example_video\<rparr>]"
        "\<lparr>generatedVideos = Some [\<lparr>video = Some example_video\<rparr>]\<rparr>"
        "\<lparr>video = Some example_video\<rparr>" "[]" example_video ?u ?u]
  have "generateVideo ?e1 (example_params TEXT_TO_VIDEO) =
          Some (GenerateVideos example_payload # example_rounds @
                  [Fetch (?u @ ''&key='' @ API_KEY ?e1)],
                if ok (fetch ?e1 (?u @ ''&key='' @ API_KEY ?e1))
                then Inr \<lparr>objectUrl = createObjectURL ?e1 (body (fetch ?e1 (?u @ ''&key='' @ API_KEY ?e1))),
                          blob = body (fetch ?e1 (?u @ ''&key='' @ API_KEY ?e1)),
                          res_uri = ?u, res_video = example_video\<rparr>
                else Inl (Error (''Failed to fetch video: ''
                        @ string_of_nat (status (fetch ?e1 (?u @ ''&key='' @ API_KEY ?e1)))
                        @ '' '' @ statusText (fetch ?e1 (?u @ ''&key='' @ API_KEY ?e1)))))"
    by (rule r1) (simp add: example_finished_def example_video_def example_env_def)
  then have a: "generateVideo ?e1 (example_params TEXT_TO_VIDEO) =
      Some (GenerateVideos example_payload # example_rounds @
              [Fetch ''https://example.test/v.mp4?alt=media&key=KEY''],
            Inr \<lparr>objectUrl = ''blob:example'', blob = [1, 2, 3],
                 res_uri = ''https://example.test/v.mp4?alt=media'', res_video = example_video\<rparr>)"
    by (simp add: example_env_def)
  let ?e2 = "?e1\<lparr>fetch := example_not_found\<rparr>"
  note r2 = completed_operation_result
    [OF example_payload_built example_completed [OF fin env'] fin(2),
     THEN conjunct2, THEN conjunct2, THEN conjunct2, THEN conjunct2, THEN conjunct2,
     THEN conjunct1, rule_format,
     of "[\<lparr>video = Some example_video\<rparr>]"
        "\<lparr>generatedVideos = Some [\<lparr>video = Some example_video\<rparr>]\<rparr>"
        "\<lparr>video = Some example_video\<rparr>" "[]" example_video ?u ?u]
  have "generateVideo ?e2 (example_params TEXT_TO_VIDEO) =
          Some (GenerateVideos example_payload # example_rounds @
                  [Fetch (?u @ ''&key='' @ API_KEY ?e2)],
                if ok (fetch ?e2 (?u @ ''&key='' @ API_KEY ?e2))
                then Inr \<lparr>objectUrl = createObjectURL ?e2 (body (fetch ?e2 (?u @ ''&key='' @ API_KEY ?e2))),
                          blob = body (fetch ?e2 (?u @ ''&key='' @ API_KEY ?e2)),
                          res_uri = ?u, res_video = example_video\<rparr>
                else Inl (Error (''Failed to fetch video: ''
                        @ string_of_nat (status (fetch ?e2 (?u @ ''&key='' @ API_KEY ?e2)))
                        @ '' '' @ statusText (fetch ?e2 (?u @ ''&key='' @ API_KEY ?e2)))))"
    by (rule r2) (simp add: example_finished_def example_video_def example_env_def)
  then have b: "generateVideo ?e2 (example_params TEXT_TO_VIDEO) =
      Some (GenerateVideos example_payload # example_rounds @
              [Fetch ''https://example.test/v.mp4?alt=media&key=KEY''],
            Inl (Error ''Failed to fetch video: 404 Not Found''))"
    by (simp add: example_env_def example_not_found_def string_of_nat.simps)
  note r3 = completed_operation_result
    [OF example_payload_built example_completed [OF fin env] fin(2),
     THEN conjunct2, THEN conjunct2, THEN conjunct2, THEN conjunct2, THEN conjunct1,
     rule_format,
     of "[\<lparr>video = None\<rparr>]" "\<lparr>generatedVideos = Some [\<lparr>video = None\<rparr>]\<rparr>"
        "\<lparr>video = None\<rparr>" "[]"]
  have c: "generateVideo
      (example_env example_pending (example_statuses (example_finished [\<lparr>video = None\<rparr>])))
      (example_params TEXT_TO_VIDEO) =
      Some (GenerateVideos example_payload # example_rounds,
            Inl (Error ''Generated video is missing a URI.''))"
    by (rule r3) (simp add: example_finished_def)
  note r4 = completed_operation_result
    [OF example_payload_built example_completed [OF fin env] fin(2),
     THEN conjunct2, THEN conjunct2, THEN conjunct2, THEN conjunct1,
     rule_format, of "[]" "\<lparr>generatedVideos = Some []\<rparr>"]
  have d: "generateVideo
      (example_env example_pending (example_statuses (example_finished [])))
      (example_params TEXT_TO_VIDEO) =
      Some (GenerateVideos example_payload # example_rounds,
            Inl (Error ''No videos were generated.''))"
    by (rule r4) (simp add: example_finished_def)
  let ?bare = "\<lparr>op_done = Some True, op_error = None, op_response = None\<rparr>"
  have bare: "isDone ?bare" "op_error ?bare = None"
    by (simp_all add: isDone_def)
  note r5 = completed_operation_result
    [OF example_payload_built example_completed [OF bare env] bare(2),
     THEN conjunct2, THEN conjunct2, THEN conjunct1, rule_format]
  have e: "generateVideo (example_env example_pending (example_statuses ?bare))
      (example_params TEXT_TO_VIDEO) =
      Some (GenerateVideos example_payload # example_rounds,
            Inl (Error ''No videos generated. The operation completed but returned no results.''))"
    by (rule r5) simp
  let ?bad = "example_finished [\<lparr>video = Some example_video_bad_uri\<rparr>]"
  let ?e3 = "(example_env example_pending (example_statuses ?bad))
               \<lparr>decodeURIComponent := example_strict_decode\<rparr>"
  have env'': "generateVideos ?e3 example_payload = example_pending"
    "getVideosOperation ?e3 = example_statuses ?bad"
    by (simp_all add: example_env_def)
  note r6 = completed_operation_result
    [OF example_payload_built example_completed [OF fin env''] fin(2),
     THEN conjunct2, THEN conjunct2, THEN conjunct2, THEN conjunct2, THEN conjunct2,
     THEN conjunct2, THEN conjunct1, rule_format,
     of "\<lparr>generatedVideos = Some [\<lparr>video = Some example_video_bad_uri\<rparr>]\<rparr>"
        "\<lparr>video = Some example_video_bad_uri\<rparr>" "[]" example_video_bad_uri
        "''https://example.test/v%''"]
  have f: "generateVideo ?e3 (example_params TEXT_TO_VIDEO) =
      Some (GenerateVideos example_payload # example_rounds, Inl URIError)"
    by (rule r6)
       (simp add: example_finished_def example_video_bad_uri_def example_env_def
          example_strict_decode_def)
  from a b c d e f show ?thesis
    by (intro conjI)
qed

text \<open>
  The claim as it was stated fails for a response whose second video has a URI and whose
  first has none: it holds a generated video with a URI, and generateVideo throws without
  a fetch.
\<close>

theorem first_video_only_counterexample:
  "op_response
     (example_finished [\<lparr>video = Some \<lparr>uri = None, videoBytes = None, video_mimeType = None\<rparr>\<rparr>,
                        \<lparr>video = Some example_video\<rparr>]) =
     Some \<lparr>generatedVideos =
            Some [\<lparr>video = Some \<lparr>uri = None, videoBytes = None, video_mimeType = None\<rparr>\<rparr>,
                  \<lparr>video = Some example_video\<rparr>]\<rparr> \<and>
   uri example_video = Some ''https://example.test/v.mp4?alt=media'' \<and>
   generateVideo
     (example_env
        (example_finished [\<lparr>video = Some \<lparr>uri = None, videoBytes = None, video_mimeType = None\<rparr>\<rparr>,
                           \<lparr>video = Some example_video\<rparr>])
        (example_statuses example_pending))
     (example_params TEXT_TO_VIDEO) =
   Some ([GenerateVideos example_payload], Inl (Error ''Generated video is missing a URI.''))"
  by (simp add: generateVideo_def example_payload_built example_env_def example_finished_def
        example_video_def pollLoop_done isDone_def fetchResult_def)

section \<open>The generated image\<close>

text \<open>\<open>atob(undefined)\<close> reads the text \<open>undefined\<close>, which is not base64.\<close>

lemma atob_undefined: "atob ''undefined'' = None"
  by (simp add: atob_def stripPadding_def isAsciiWhitespace_def)

lemma scanParts_no_inline:
  "list_all (\<lambda>p. inlineData p = None) ps \<Longrightarrow>
   scanParts ps = Inl (Error ''Response did not contain image data.'')"
  by (induction ps) simp_all

lemma scanParts_first_inline:
  "list_all (\<lambda>p. inlineData p = None) pre \<Longrightarrow> inlineData part = Some d \<Longrightarrow>
   scanParts (pre @ part # rest) = decodeInline d"
  by (induction pre) simp_all

lemma decodeInline_not_Error: "decodeInline d \<noteq> Inl (Error m)"
  by (simp add: decodeInline_def split: option.split)

lemma scanParts_Error:
  "scanParts ps = Inl (Error m) \<Longrightarrow> list_all (\<lambda>p. inlineData p = None) ps"
proof (induction ps)
  case Nil
  then show ?case by simp
next
  case (Cons p ps)
  then show ?case
    by (cases "inlineData p") (simp_all add: decodeInline_not_Error)
qed

text \<open>
  Claim C4, as amended. generateImage reads the content parts of the first candidate.
  When they are absent it throws \<open>No image generated.\<close>; when no part among them carries
  inline data it throws \<open>Response did not contain image data.\<close>; when the first part with
  inline data holds valid base64, it returns the decoded bytes, as the PNG file
  \<open>generated-image.png\<close>, with the base64 text. One of the two descriptive errors is
  thrown if and only if the first candidate has no part with inline data.
\<close>

theorem generateImage_result:
  assumes "generateContent (imageRequest promptText aspectRatioArg) = response"
  shows
    "(firstParts response = None \<longrightarrow>
        generateImage generateContent promptText aspectRatioArg =
          Inl (Error ''No image generated.'')) \<and>
     (\<forall>ps. firstParts response = Some ps \<and> list_all (\<lambda>p. inlineData p = None) ps \<longrightarrow>
        generateImage generateContent promptText aspectRatioArg =
          Inl (Error ''Response did not contain image data.'')) \<and>
     (\<forall>pre part rest d b64 bin.
        firstParts response = Some (pre @ part # rest) \<and>
        list_all (\<lambda>p. inlineData p = None) pre \<and> inlineData part = Some d \<and>
        data d = Some b64 \<and> atob b64 = Some bin \<longrightarrow>
        generateImage generateContent promptText aspectRatioArg =
          Inr \<lparr>file_of = \<lparr>file_name = ''generated-image.png'', file_type = ''image/png'',
                           file_bytes = map (\<lambda>c. of_nat (of_char c)) bin\<rparr>,
               base64 = b64\<rparr>) \<and>
     ((\<exists>m. generateImage generateContent promptText aspectRatioArg = Inl (Error m)) \<longleftrightarrow>
        (case firstParts response of
           None \<Rightarrow> True
         | Some ps \<Rightarrow> list_all (\<lambda>p. inlineData p = None) ps))"
proof (intro conjI allI impI)
  assume "firstParts response = None"
  with assms show "generateImage generateContent promptText aspectRatioArg =
          Inl (Error ''No image generated.'')"
    by (simp add: generateImage_def)
next
  fix ps
  assume "firstParts response = Some ps \<and> list_all (\<lambda>p. inlineData p = None) ps"
  with assms show "generateImage generateContent promptText aspectRatioArg =
          Inl (Error ''Response did not contain image data.'')"
    by (simp add: generateImage_def scanParts_no_inline)
next
  fix pre part rest d b64 bin
  assume "firstParts response = Some (pre @ part # rest) \<and>
        list_all (\<lambda>p. inlineData p = None) pre \<and> inlineData part = Some d \<and>
        data d = Some b64 \<and> atob b64 = Some bin"
  with assms show "generateImage generateContent promptText aspectRatioArg =
          Inr \<lparr>file_of = \<lparr>file_name = ''generated-image.png'', file_type = ''image/png'',
                           file_bytes = map (\<lambda>c. of_nat (of_char c)) bin\<rparr>,
               base64 = b64\<rparr>"
    by (simp add: generateImage_def scanParts_first_inline decodeInline_def)
next
  show "(\<exists>m. generateImage generateContent promptText aspectRatioArg = Inl (Error m)) \<longleftrightarrow>
        (case firstParts response of
           None \<Rightarrow> True
         | Some ps \<Rightarrow> list_all (\<lambda>p. inlineData p = None) ps)"
  proof (cases "firstParts response")
    case None
    with assms show ?thesis by (simp add: generateImage_def)
  next
    case (Some ps)
    with assms have run: "generateImage generateContent promptText aspectRatioArg = scanParts ps"
      by (simp add: generateImage_def)
    show ?thesis
      unfolding run using Some
      by (auto simp add: scanParts_no_inline dest: scanParts_Error)
  qed
qed

theorem generateImage_result_witness:
  "generateImage
     (example_generateContent (example_image_response [example_text_part, example_inline ''aGk='']))
     ''a cat'' None =
   Inr \<lparr>file_of = \<lparr>file_name = ''generated-image.png'', file_type = ''image/png'',
                    file_bytes = [104, 105]\<rparr>,
        base64 = ''aGk=''\<rparr> \<and>
   generateImage (example_generateContent (example_image_response [example_text_part]))
     ''a cat'' None = Inl (Error ''Response did not contain image data.'') \<and>
   generateImage (example_generateContent \<lparr>candidates = Some []\<rparr>)
     ''a cat'' None = Inl (Error ''No image generated.'')"
proof -
  have h: "example_generateContent response (imageRequest ''a cat'' None) = response"
    for response
    by (simp add: example_generateContent_def)
  let ?response = "example_image_response [example_text_part, example_inline ''aGk='']"
  have decoded: "atob ''aGk='' = Some (map char_of [104, 105 :: nat])"
    by (simp add: atob_def stripPadding_def isAsciiWhitespace_def b64chars_def)
  note returned = generateImage_result
      [of "example_generateContent ?response" "''a cat''" None ?response, OF h,
       THEN conjunct2, THEN conjunct2, THEN conjunct1, rule_format,
       of "[example_text_part]" "example_inline ''aGk=''" "[]"
          "\<lparr>data = Some ''aGk='', inline_mimeType = Some ''image/png''\<rparr>" "''aGk=''"
          "map char_of [104, 105 :: nat]"]
  have "generateImage (example_generateContent ?response) ''a cat'' None =
          Inr \<lparr>file_of = \<lparr>file_name = ''generated-image.png'', file_type = ''image/png'',
                           file_bytes = map (\<lambda>c. of_nat (of_char c))
                                          (map char_of [104, 105 :: nat])\<rparr>,
               base64 = ''aGk=''\<rparr>"
    by (rule returned)
       (simp add: decoded example_image_response_def firstParts_def example_text_part_def
          example_inline_def)
  then have a: "generateImage (example_generateContent ?response) ''a cat'' None =
      Inr \<lparr>file_of = \<lparr>file_name = ''generated-image.png'', file_type = ''image/png'',
                       file_bytes = [104, 105]\<rparr>,
           base64 = ''aGk=''\<rparr>"
    by simp
  let ?text_only = "example_image_response [example_text_part]"
  note no_data = generateImage_result
      [of "example_generateContent ?text_only" "''a cat''" None ?text_only, OF h,
       THEN conjunct2, THEN conjunct1, rule_format, of "[example_text_part]"]
  have b: "generateImage (example_generateContent ?text_only) ''a cat'' None =
      Inl (Error ''Response did not contain image data.'')"
    by (rule no_data)
       (simp add: example_image_response_def firstParts_def example_text_part_def)
  let ?empty = "\<lparr>candidates = Some []\<rparr>"
  note no_image = generateImage_result
      [of "example_generateContent ?empty" "''a cat''" None ?empty, OF h,
       THEN conjunct1, rule_format]
  have c: "generateImage (example_generateContent ?empty) ''a cat'' None =
      Inl (Error ''No image generated.'')"
    by (rule no_image) (simp add: firstParts_def)
  from a b c show ?thesis
    by (intro conjI)
qed

text \<open>
  The claim as it was stated fails for an inline part whose data is not base64: nothing
  is returned, and the error thrown is the decoder's, neither of the two descriptive ones.
\<close>

theorem malformed_inline_counterexample:
  "inlineData (example_inline ''!!!!'') =
     Some \<lparr>data = Some ''!!!!'', inline_mimeType = Some ''image/png''\<rparr> \<and>
   generateImage (example_generateContent (example_image_response [example_inline ''!!!!'']))
     ''a cat'' None = Inl InvalidCharacterError"
  by (simp add: generateImage_def example_generateContent_def example_image_response_def
        firstParts_def example_inline_def decodeInline_def atob_def stripPadding_def
        isAsciiWhitespace_def b64chars_def)

section \<open>The submit gate\<close>

lemma trim_empty: "(trim s = []) = list_all isWhiteSpace s"
proof (cases "list_all isWhiteSpace s")
  case True
  then have d: "dropWhile isWhiteSpace s = []"
    by (simp add: list_all_iff)
  have "trim s = []"
    by (simp add: trim_def d)
  with True show ?thesis by simp
next
  case False
  then have ne: "dropWhile isWhiteSpace s \<noteq> []"
    by (simp add: list_all_iff)
  then have "\<not> isWhiteSpace (hd (dropWhile isWhiteSpace s))"
    by (rule hd_dropWhile)
  moreover from ne have "hd (dropWhile isWhiteSpace s) \<in> set (rev (dropWhile isWhiteSpace s))"
    by simp
  ultimately have "dropWhile isWhiteSpace (rev (dropWhile isWhiteSpace s)) \<noteq> []"
    by auto
  then have "trim s \<noteq> []"
    unfolding trim_def by simp
  with False show ?thesis by simp
qed

text \<open>
  Claim C8. For every form state, the submit button is disabled exactly when the
  validation rule of the mode fails: text-to-video requires a non-blank prompt,
  frames-to-video a start frame, references-to-video a non-blank prompt and at least one
  reference asset, extend-video an input video object.
\<close>

theorem submit_disabled_iff_rule_fails: "isSubmitDisabled st = (\<not> validationRule st)"
  by (cases "form_generationMode st")
     (simp_all add: isSubmitDisabled_def submitGate_def validationRule_def nonBlank_def
        trim_empty Let_def)

theorem submit_disabled_iff_rule_fails_witness:
  "isSubmitDisabled (example_form TEXT_TO_VIDEO '' '') \<and>
   \<not> isSubmitDisabled (example_form TEXT_TO_VIDEO ''a cat'') \<and>
   isSubmitDisabled (example_form FRAMES_TO_VIDEO ''a cat'') \<and>
   isSubmitDisabled (example_form REFERENCES_TO_VIDEO ''a cat'') \<and>
   \<not> isSubmitDisabled
       ((example_form REFERENCES_TO_VIDEO ''a cat'')\<lparr>form_referenceImages := [example_frameA]\<rparr>) \<and>
   isSubmitDisabled (example_form EXTEND_VIDEO ''a cat'') \<and>
   \<not> isSubmitDisabled
       ((example_form EXTEND_VIDEO [])\<lparr>form_inputVideoObject := Some example_video\<rparr>)"
  by (simp add: submit_disabled_iff_rule_fails validationRule_def nonBlank_def
        isWhiteSpace_def example_form_def)

end
